theory Spec2Isabelle
  imports Main
begin

section \<open>The HTTP stream element of the audio pipeline\<close>

text \<open>
  A shallow embedding of \<^verbatim>\<open>components/audio_stream/http_stream.c\<close>: the content-type
  sniffer (\<^verbatim>\<open>get_audio_type\<close>, \<^verbatim>\<open>_http_event_handle\<close>), the hook dispatcher
  (\<^verbatim>\<open>dispatch_hook\<close>) and the lifecycle and I/O callbacks \<^verbatim>\<open>_http_open\<close>,
  \<^verbatim>\<open>_http_read\<close> and \<^verbatim>\<open>_http_close\<close>. The leading underscore of the C names is
  dropped, since an Isabelle name cannot start with one.

  Conventions.
  \<^item> A C string is the list of its bytes before the terminating NUL; a pointer that may
    be \<^verbatim>\<open>NULL\<close> is an \<open>option\<close>.
  \<^item> C \<^verbatim>\<open>int\<close> values (hook results, transport results, \<^verbatim>\<open>esp_err_t\<close>) are only
    compared with constants and passed on, so they are mathematical integers. The fields
    of \<^verbatim>\<open>audio_element_info_t\<close> are declared in a header outside this file; they are
    integers too.
  \<^item> The HTTP client library and the element framework are external. What they answer
    is a parameter (\<open>transport_env\<close>); what the code asks of them is returned as the
    list of calls it made, in order.
\<close>

subsection \<open>Strings\<close>

text \<open>\<^verbatim>\<open>tolower\<close> of the C locale: the letters A to Z move to a to z, every other byte stays.\<close>

definition tolower :: "char \<Rightarrow> char" where
  "tolower c =
     (if 65 \<le> (of_char c :: nat) \<and> (of_char c :: nat) \<le> 90
      then char_of ((of_char c :: nat) + 32) else c)"

text \<open>
  \<^verbatim>\<open>strcasecmp\<close>: walks both strings, comparing the lower-cased bytes; the result is the
  difference of the first pair that differs, and 0 when the strings end together. The
  end of a list stands for the terminating NUL, whose byte value is 0.
\<close>

fun strcasecmp :: "string \<Rightarrow> string \<Rightarrow> int" where
  "strcasecmp [] [] = 0"
| "strcasecmp [] (y # ys) = 0 - int (of_char (tolower y))"
| "strcasecmp (x # xs) [] = int (of_char (tolower x))"
| "strcasecmp (x # xs) (y # ys) =
     (if tolower x = tolower y then strcasecmp xs ys
      else int (of_char (tolower x)) - int (of_char (tolower y)))"

subsection \<open>Content-type sniffer\<close>

datatype audio_codec_t =
    AUDIO_CODEC_NONE
  | AUDIO_CODEC_MP3
  | AUDIO_CODEC_AAC
  | AUDIO_CODEC_WAV
  | AUDIO_CODEC_OPUS

text \<open>
  A C condition \<^verbatim>\<open>if (e)\<close> on an integer holds when \<open>e \<noteq> 0\<close>. The five tests of
  \<^verbatim>\<open>get_audio_type\<close> are written \<^verbatim>\<open>if (strcasecmp(content_type, "..."))\<close>, with no
  comparison against 0.
\<close>

definition get_audio_type :: "string \<Rightarrow> audio_codec_t" where
  "get_audio_type content_type =
     (if strcasecmp content_type ''audio/mp3'' \<noteq> 0 then AUDIO_CODEC_MP3
      else if strcasecmp content_type ''audio/mpeg'' \<noteq> 0 then AUDIO_CODEC_MP3
      else if strcasecmp content_type ''audio/aac'' \<noteq> 0 then AUDIO_CODEC_AAC
      else if strcasecmp content_type ''audio/wav'' \<noteq> 0 then AUDIO_CODEC_WAV
      else if strcasecmp content_type ''audio/opus'' \<noteq> 0 then AUDIO_CODEC_OPUS
      else AUDIO_CODEC_NONE)"

text \<open>
  The classification the specification describes, for comparison: case-insensitive
  substring containment of the markers, in the priority order MP3, MP3, AAC, WAV, OPUS.
\<close>

fun starts_with_ci :: "string \<Rightarrow> string \<Rightarrow> bool" where
  "starts_with_ci [] v = True"
| "starts_with_ci (m # ms) [] = False"
| "starts_with_ci (m # ms) (c # cs) = (tolower m = tolower c \<and> starts_with_ci ms cs)"

fun contains_ci :: "string \<Rightarrow> string \<Rightarrow> bool" where
  "contains_ci m [] = starts_with_ci m []"
| "contains_ci m (c # cs) = (starts_with_ci m (c # cs) \<or> contains_ci m cs)"

definition spec_audio_type :: "string \<Rightarrow> audio_codec_t" where
  "spec_audio_type v =
     (if contains_ci ''audio/mp3'' v then AUDIO_CODEC_MP3
      else if contains_ci ''audio/mpeg'' v then AUDIO_CODEC_MP3
      else if contains_ci ''audio/aac'' v then AUDIO_CODEC_AAC
      else if contains_ci ''audio/wav'' v then AUDIO_CODEC_WAV
      else if contains_ci ''audio/opus'' v then AUDIO_CODEC_OPUS
      else AUDIO_CODEC_NONE)"

text \<open>
  The stream information the element shares with the framework. Only the three fields
  this file reads or writes are kept.
\<close>

record audio_element_info_t =
  byte_pos :: int
  total_bytes :: int
  codec_fmt :: audio_codec_t

type_synonym esp_err_t = int

definition ESP_OK :: esp_err_t where "ESP_OK = 0"
definition ESP_FAIL :: esp_err_t where "ESP_FAIL = - 1"
definition ESP_ERR_NO_MEM :: esp_err_t where "ESP_ERR_NO_MEM = 257"

text \<open>
  The events of the HTTP client library. The handler tells \<^verbatim>\<open>HTTP_EVENT_ON_HEADER\<close>
  from all the others.
\<close>

datatype esp_http_client_event_id_t =
    HTTP_EVENT_ERROR
  | HTTP_EVENT_ON_CONNECTED
  | HTTP_EVENT_HEADER_SENT
  | HTTP_EVENT_ON_HEADER
  | HTTP_EVENT_ON_DATA
  | HTTP_EVENT_ON_FINISH
  | HTTP_EVENT_DISCONNECTED

record esp_http_client_event_t =
  event_id :: esp_http_client_event_id_t
  header_key :: string
  header_value :: string

text \<open>
  \<^verbatim>\<open>_http_event_handle\<close>: \<^verbatim>\<open>evt->user_data\<close> points to the stream information, which
  the handler updates in place; here it is passed in and returned.
\<close>

definition http_event_handle ::
  "esp_http_client_event_t \<Rightarrow> audio_element_info_t \<Rightarrow> esp_err_t \<times> audio_element_info_t" where
  "http_event_handle evt info =
     (if event_id evt \<noteq> HTTP_EVENT_ON_HEADER then (ESP_OK, info)
      else if strcasecmp (header_key evt) ''Content-Disposition'' = 0
              \<or> strcasecmp (header_key evt) ''Content-Type'' = 0
      then (ESP_OK, info\<lparr>codec_fmt := get_audio_type (header_value evt)\<rparr>)
      else (ESP_OK, info))"

text \<open>The events of one header fetch, delivered to the handler in order.\<close>

fun deliver_events ::
  "esp_http_client_event_t list \<Rightarrow> audio_element_info_t \<Rightarrow> audio_element_info_t" where
  "deliver_events [] info = info"
| "deliver_events (evt # evts) info = deliver_events evts (snd (http_event_handle evt info))"

subsection \<open>Element state and hooks\<close>

datatype audio_stream_type_t =
    AUDIO_STREAM_NONE
  | AUDIO_STREAM_READER
  | AUDIO_STREAM_WRITER

datatype http_stream_event_id_t =
    HTTP_STREAM_PRE_REQUEST
  | HTTP_STREAM_ON_REQUEST
  | HTTP_STREAM_ON_RESPONSE
  | HTTP_STREAM_POST_REQUEST
  | HTTP_STREAM_FINISH_REQUEST

text \<open>
  A transport handle is a pointer to a session of the HTTP client library
  (\<open>None\<close> is \<^verbatim>\<open>NULL\<close>); a buffer is a pointer to bytes; the hook's context is an
  opaque address.
\<close>

type_synonym esp_http_client_handle_t = "nat option"
type_synonym buffer_t = "string option"

record http_stream_event_msg_t =
  msg_event_id :: http_stream_event_id_t
  http_client :: esp_http_client_handle_t
  msg_user_data :: nat
  buffer :: buffer_t
  buffer_len :: int

text \<open>
  \<^verbatim>\<open>http_stream_t\<close>. The hook is a function pointer (\<open>None\<close> when no hook is
  registered); its answer is a function of the message it receives. Each of
  \<^verbatim>\<open>_http_open\<close>, \<^verbatim>\<open>_http_read\<close> and \<^verbatim>\<open>_http_close\<close> sends each kind of event at
  most once, so within one operation this covers a hook that keeps state of its own.
\<close>

record http_stream_t =
  type' :: audio_stream_type_t
  uri :: "string option"
  is_open :: bool
  client :: esp_http_client_handle_t
  hook :: "(http_stream_event_msg_t \<Rightarrow> int) option"
  stream_type :: audio_stream_type_t
  user_data :: nat

text \<open>
  The element as the framework holds it: the URI and the stream information behind
  \<^verbatim>\<open>audio_element_get_uri\<close>, \<^verbatim>\<open>audio_element_getinfo\<close> and \<^verbatim>\<open>audio_element_setinfo\<close>,
  the state behind \<^verbatim>\<open>audio_element_get_state\<close>, and the element's private data
  (\<^verbatim>\<open>audio_element_getdata\<close>). Of the framework's states the code tells
  \<^verbatim>\<open>AEL_STATE_PAUSED\<close> from the rest.
\<close>

datatype audio_element_state_t =
    AEL_STATE_PAUSED
  | AEL_STATE_OTHER nat

record audio_element =
  el_uri :: "string option"
  el_info :: audio_element_info_t
  el_state :: audio_element_state_t
  el_data :: http_stream_t

definition dispatch_hook ::
  "http_stream_t \<Rightarrow> http_stream_event_id_t \<Rightarrow> buffer_t \<Rightarrow> int \<Rightarrow> int" where
  "dispatch_hook http_stream ty buf buf_len =
     (let msg = \<lparr>msg_event_id = ty, http_client = client http_stream,
                 msg_user_data = user_data http_stream, buffer = buf, buffer_len = buf_len\<rparr>
      in case hook http_stream of
           Some f \<Rightarrow> f msg
         | None \<Rightarrow> ESP_OK)"

subsection \<open>The transport and the calls made to it\<close>

text \<open>
  What the HTTP client library answers. \<open>fetch_events\<close> are the events the library
  delivers to the registered handler while \<^verbatim>\<open>esp_http_client_fetch_headers\<close> runs.
\<close>

record transport_env =
  init_result :: esp_http_client_handle_t
  post_field :: "esp_http_client_handle_t \<Rightarrow> buffer_t \<times> int"
  open_result :: "esp_http_client_handle_t \<Rightarrow> int \<Rightarrow> esp_err_t"
  write_result :: "esp_http_client_handle_t \<Rightarrow> buffer_t \<Rightarrow> int \<Rightarrow> int"
  read_result :: "esp_http_client_handle_t \<Rightarrow> buffer_t \<Rightarrow> int \<Rightarrow> int"
  fetch_result :: "esp_http_client_handle_t \<Rightarrow> int"
  fetch_events :: "esp_http_client_handle_t \<Rightarrow> esp_http_client_event_t list"
  status_code :: "esp_http_client_handle_t \<Rightarrow> int"

text \<open>
  The calls the code makes to the library and to the framework, and the error-level log
  lines it prints (\<^verbatim>\<open>ESP_LOGE\<close>, by their message). Each operation returns the calls it
  made, in order. A session is released by \<^verbatim>\<open>esp_http_client_cleanup\<close>.
\<close>

datatype call =
    Esp_http_client_init string
  | Esp_http_client_set_header esp_http_client_handle_t string string
  | Esp_http_client_get_post_field esp_http_client_handle_t
  | Esp_http_client_open esp_http_client_handle_t int
  | Esp_http_client_write esp_http_client_handle_t buffer_t int
  | Esp_http_client_read esp_http_client_handle_t buffer_t int
  | Esp_http_client_fetch_headers esp_http_client_handle_t
  | Esp_http_client_get_status_code esp_http_client_handle_t
  | Esp_http_client_close esp_http_client_handle_t
  | Esp_http_client_cleanup esp_http_client_handle_t
  | Audio_element_report_codec_fmt
  | Esp_loge string

fun released :: "esp_http_client_handle_t \<Rightarrow> call list \<Rightarrow> bool" where
  "released h [] = False"
| "released h (c # cs) = (c = Esp_http_client_cleanup h \<or> released h cs)"

fun open_attempted :: "call list \<Rightarrow> bool" where
  "open_attempted [] = False"
| "open_attempted (Esp_http_client_open h n # cs) = True"
| "open_attempted (c # cs) = open_attempted cs"

fun headers_fetched :: "call list \<Rightarrow> bool" where
  "headers_fetched [] = False"
| "headers_fetched (Esp_http_client_fetch_headers h # cs) = True"
| "headers_fetched (c # cs) = headers_fetched cs"

fun transport_calls :: "call list \<Rightarrow> call list" where
  "transport_calls [] = []"
| "transport_calls (Esp_loge m # cs) = transport_calls cs"
| "transport_calls (Audio_element_report_codec_fmt # cs) = transport_calls cs"
| "transport_calls (c # cs) = c # transport_calls cs"

subsection \<open>The range header\<close>

text \<open>
  \<^verbatim>\<open>snprintf(rang_header, 32, "bytes=%d-", (int)info.byte_pos)\<close>: the offset is cast
  to a 32-bit \<^verbatim>\<open>int\<close> and printed in decimal. The text has at most 18 characters, so
  the bound of 32 never cuts it.
\<close>

definition cast_int :: "int \<Rightarrow> int" where
  "cast_int x = (x + 2147483648) mod 4294967296 - 2147483648"

fun dec_nat :: "nat \<Rightarrow> string" where
  "dec_nat n =
     (if n < 10 then [char_of (48 + n)]
      else dec_nat (n div 10) @ [char_of (48 + n mod 10)])"

definition dec_int :: "int \<Rightarrow> string" where
  "dec_int x = (if x < 0 then CHR ''-'' # dec_nat (nat (- x)) else dec_nat (nat x))"

definition rang_header :: "int \<Rightarrow> string" where
  "rang_header pos = ''bytes='' @ dec_int (cast_int pos) @ ''-''"

subsection \<open>Opening\<close>

text \<open>
  \<^verbatim>\<open>_http_open\<close>. The local \<^verbatim>\<open>info\<close> is a copy of the element's stream information
  (\<^verbatim>\<open>audio_element_getinfo\<close>); the header handler is registered on that copy, and the copy
  is written back by \<^verbatim>\<open>audio_element_setinfo\<close> on the last path only.
  \<^verbatim>\<open>AUDIO_MEM_CHECK(TAG, p, action)\<close> runs \<^verbatim>\<open>action\<close> when \<^verbatim>\<open>p\<close> is \<^verbatim>\<open>NULL\<close>.
  A status other than 200 prints a log line; the \<^verbatim>\<open>return ESP_FAIL\<close> that follows it
  in the source is commented out.
\<close>

definition http_open ::
  "transport_env \<Rightarrow> audio_element \<Rightarrow> esp_err_t \<times> audio_element \<times> call list" where
  "http_open env self =
     (let http = el_data self; info = el_info self in
      case el_uri self of
        None \<Rightarrow> (ESP_FAIL, self, [Esp_loge ''Error, need uri to open''])
      | Some u \<Rightarrow>
        if is_open http then (ESP_FAIL, self, [Esp_loge ''already opened''])
        else
          let http = http\<lparr>client := init_result env\<rparr>;
              self = self\<lparr>el_data := http\<rparr>;
              cs = [Esp_http_client_init u]
          in
          if client http = None then (ESP_ERR_NO_MEM, self, cs)
          else
            let cs = cs @ (if byte_pos info \<noteq> 0
                           then [Esp_http_client_set_header (client http) ''Range''
                                   (rang_header (byte_pos info))]
                           else [])
            in
            if dispatch_hook http HTTP_STREAM_PRE_REQUEST None 0 \<noteq> ESP_OK
            then (ESP_FAIL, self, cs @ [Esp_loge ''Failed to process user callback''])
            else if stream_type http = AUDIO_STREAM_WRITER
            then
              let err = open_result env (client http) (- 1);
                  cs = cs @ [Esp_http_client_open (client http) (- 1)]
              in
              if err = ESP_OK
              then (err, self\<lparr>el_data := http\<lparr>is_open := True\<rparr>\<rparr>, cs)
              else (err, self, cs)
            else
              let (buf, post_len) = post_field env (client http);
                  cs = cs @ [Esp_http_client_get_post_field (client http),
                             Esp_http_client_open (client http) post_len]
              in
              if open_result env (client http) post_len \<noteq> ESP_OK
              then (ESP_FAIL, self, cs @ [Esp_loge ''Failed to open http stream''])
              else
                let wrlen = dispatch_hook http HTTP_STREAM_ON_REQUEST buf post_len in
                if wrlen < 0
                then (ESP_FAIL, self, cs @ [Esp_loge ''Failed to process user callback''])
                else
                  let wr = (post_len \<noteq> 0 \<and> buf \<noteq> None \<and> wrlen = 0);
                      cs = cs @ (if wr then [Esp_http_client_write (client http) buf post_len]
                                 else [])
                  in
                  if wr \<and> write_result env (client http) buf post_len \<le> 0
                  then (ESP_FAIL, self,
                        cs @ [Esp_loge ''Failed to write data to http stream''])
                  else if dispatch_hook http HTTP_STREAM_POST_REQUEST None 0 < 0
                  then (ESP_FAIL, self, cs @ [Esp_http_client_close (client http)])
                  else
                    let info = deliver_events (fetch_events env (client http)) info;
                        info = info\<lparr>total_bytes := fetch_result env (client http)\<rparr>;
                        cs = cs @ [Esp_http_client_fetch_headers (client http),
                                   Esp_http_client_get_status_code (client http)];
                        cs = cs @ (if status_code env (client http) \<noteq> 200
                                   then [Esp_loge ''Invalid HTTP stream''] else [])
                    in
                    (ESP_OK,
                     self\<lparr>el_data := http\<lparr>is_open := True\<rparr>, el_info := info\<rparr>,
                     cs @ [Audio_element_report_codec_fmt]))"

subsection \<open>Reading\<close>

text \<open>
  \<^verbatim>\<open>_http_read\<close>. The bytes stored into the buffer are not part of the model; the
  arguments \<^verbatim>\<open>ticks_to_wait\<close> and \<^verbatim>\<open>context\<close> are unused in the source.
\<close>

definition http_read ::
  "transport_env \<Rightarrow> audio_element \<Rightarrow> buffer_t \<Rightarrow> int \<Rightarrow> int \<times> audio_element \<times> call list" where
  "http_read env self buf len =
     (let http = el_data self; info = el_info self;
          wrlen = dispatch_hook http HTTP_STREAM_ON_RESPONSE buf len;
          rlen = (if wrlen = 0 then read_result env (client http) buf len else wrlen);
          cs = (if wrlen = 0 then [Esp_http_client_read (client http) buf len] else [])
      in
      if rlen \<le> 0 then (rlen, self, cs)
      else (rlen, self\<lparr>el_info := info\<lparr>byte_pos := byte_pos info + rlen\<rparr>\<rparr>, cs))"

subsection \<open>Closing\<close>

text \<open>
  The \<^verbatim>\<open>while (http->is_open)\<close> loop of \<^verbatim>\<open>_http_close\<close>: every \<^verbatim>\<open>break\<close> returns,
  and reaching the end of the body tests the condition again. The header fetch of a
  writer's close discards its result; the handler registered by \<^verbatim>\<open>_http_open\<close> points to
  a local of that call, which is not part of the element any more, so the events of this
  fetch reach nothing the model holds.
\<close>

function close_loop :: "http_stream_t \<Rightarrow> http_stream_t \<times> call list" where
  "close_loop http =
     (if is_open http then
        (if stream_type http \<noteq> AUDIO_STREAM_WRITER then (http\<lparr>is_open := False\<rparr>, [])
         else if dispatch_hook (http\<lparr>is_open := False\<rparr>) HTTP_STREAM_POST_REQUEST None 0 < 0
         then (http\<lparr>is_open := False\<rparr>, [])
         else if dispatch_hook (http\<lparr>is_open := False\<rparr>) HTTP_STREAM_FINISH_REQUEST None 0 < 0
         then (http\<lparr>is_open := False\<rparr>, [Esp_http_client_fetch_headers (client http)])
         else
           (case close_loop (http\<lparr>is_open := False\<rparr>) of
              (http', cs) \<Rightarrow> (http', Esp_http_client_fetch_headers (client http) # cs)))
      else (http, []))"
  by pat_completeness auto
termination
  by (relation "measure (\<lambda>h. if is_open h then 1 else 0)") auto

declare close_loop.simps [simp del]

text \<open>
  \<^verbatim>\<open>_http_close\<close>: after the loop the session is closed and released, whatever the loop
  did, and the offset is reset unless the element is paused.
\<close>

definition http_close :: "audio_element \<Rightarrow> esp_err_t \<times> audio_element \<times> call list" where
  "http_close self =
     (let (http, cs) = close_loop (el_data self);
          self = self\<lparr>el_data := http\<rparr>;
          cs = cs @ [Esp_http_client_close (client http), Esp_http_client_cleanup (client http)]
      in
      if el_state self \<noteq> AEL_STATE_PAUSED
      then (ESP_OK, self\<lparr>el_info := (el_info self)\<lparr>byte_pos := 0\<rparr>\<rparr>, cs)
      else (ESP_OK, self, cs))"

subsection \<open>Construction\<close>

text \<open>
  \<^verbatim>\<open>http_stream_init\<close>: the private data of a new element. \<^verbatim>\<open>audio_calloc\<close> zeroes the
  structure, then the role, the hook and its context are copied from the configuration.
  The element itself is built by the framework (\<^verbatim>\<open>audio_element_init\<close>); the two paths
  on which an allocation fails return \<^verbatim>\<open>NULL\<close> and build nothing.
\<close>

record http_stream_cfg_t =
  cfg_type :: audio_stream_type_t
  event_handle :: "(http_stream_event_msg_t \<Rightarrow> int) option"
  cfg_user_data :: nat

definition http_stream_init :: "http_stream_cfg_t \<Rightarrow> http_stream_t" where
  "http_stream_init config =
     \<lparr>type' = cfg_type config, uri = None, is_open = False, client = None,
      hook = event_handle config, stream_type = cfg_type config,
      user_data = cfg_user_data config\<rparr>"

subsection \<open>Scenarios\<close>

text \<open>
  Concrete inputs on which the theorems below are exercised: a transport on which every
  call succeeds and whose response carries \<^verbatim>\<open>Content-Type: audio/mpeg\<close>, a new element
  with its URI set by the framework, and a hook that answers \<open>r\<close> to one kind of event
  and 0 to the others.
\<close>

definition scenario_env :: transport_env where
  "scenario_env =
     \<lparr>init_result = Some 1,
      post_field = (\<lambda>h. (None, 0)),
      open_result = (\<lambda>h n. ESP_OK),
      write_result = (\<lambda>h b n. n),
      read_result = (\<lambda>h b n. n),
      fetch_result = (\<lambda>h. 4096),
      fetch_events = (\<lambda>h. [\<lparr>event_id = HTTP_EVENT_ON_HEADER,
                              header_key = ''Content-Type'',
                              header_value = ''audio/mpeg''\<rparr>]),
      status_code = (\<lambda>h. 200)\<rparr>"

definition scenario_element ::
  "audio_stream_type_t \<Rightarrow> (http_stream_event_msg_t \<Rightarrow> int) option \<Rightarrow> audio_element" where
  "scenario_element ty hk =
     \<lparr>el_uri = Some ''http://host/a.mp3'',
      el_info = \<lparr>byte_pos = 0, total_bytes = 0, codec_fmt = AUDIO_CODEC_NONE\<rparr>,
      el_state = AEL_STATE_OTHER 0,
      el_data = http_stream_init \<lparr>cfg_type = ty, event_handle = hk, cfg_user_data = 0\<rparr>\<rparr>"

definition hook_answer ::
  "http_stream_event_id_t \<Rightarrow> int \<Rightarrow> http_stream_event_msg_t \<Rightarrow> int" where
  "hook_answer ev r msg = (if msg_event_id msg = ev then r else 0)"

text \<open>
  A response header that produces a classification other than NONE: a header event whose
  name is one of the two the handler looks at and whose value \<^verbatim>\<open>get_audio_type\<close> does
  not map to \<^verbatim>\<open>AUDIO_CODEC_NONE\<close>.
\<close>

definition classifies :: "esp_http_client_event_t \<Rightarrow> bool" where
  "classifies evt =
     (event_id evt = HTTP_EVENT_ON_HEADER
      \<and> (strcasecmp (header_key evt) ''Content-Disposition'' = 0
         \<or> strcasecmp (header_key evt) ''Content-Type'' = 0)
      \<and> get_audio_type (header_value evt) \<noteq> AUDIO_CODEC_NONE)"

section \<open>Properties\<close>

subsection \<open>The sniffer\<close>

lemma strcasecmp_Cons_0:
  "strcasecmp s (y # ys) = 0 \<Longrightarrow> of_char (tolower y) \<noteq> (0::nat) \<Longrightarrow>
   \<exists>x xs. s = x # xs \<and> tolower x = tolower y \<and> strcasecmp xs ys = 0"
  by (cases s) (auto split: if_splits)

text \<open>A string that compares equal to \<^verbatim>\<open>audio/mp3\<close> differs from \<^verbatim>\<open>audio/mpeg\<close>.\<close>

lemma mp3_not_mpeg:
  assumes "strcasecmp s ''audio/mp3'' = 0"
  shows "strcasecmp s ''audio/mpeg'' \<noteq> 0"
proof -
  from assms obtain a1 a2 a3 a4 a5 a6 a7 a8 a9 r where
    "s = a1 # a2 # a3 # a4 # a5 # a6 # a7 # a8 # a9 # r"
    "tolower a1 = tolower CHR ''a''" "tolower a2 = tolower CHR ''u''"
    "tolower a3 = tolower CHR ''d''" "tolower a4 = tolower CHR ''i''"
    "tolower a5 = tolower CHR ''o''" "tolower a6 = tolower CHR ''/''"
    "tolower a7 = tolower CHR ''m''" "tolower a8 = tolower CHR ''p''"
    "tolower a9 = tolower CHR ''3''"
    by (auto dest!: strcasecmp_Cons_0 simp: tolower_def)
  then show ?thesis by (auto simp: tolower_def)
qed

text \<open>
  Hence one of the first two tests of \<^verbatim>\<open>get_audio_type\<close> always holds, and the
  function answers MP3 on every input.
\<close>

lemma get_audio_type_mp3: "get_audio_type v = AUDIO_CODEC_MP3"
  using mp3_not_mpeg [of v] by (auto simp: get_audio_type_def)

lemma handle_codec:
  "codec_fmt (snd (http_event_handle evt info)) =
     (if classifies evt then AUDIO_CODEC_MP3 else codec_fmt info)"
  by (simp add: http_event_handle_def classifies_def get_audio_type_mp3)

lemma deliver_events_append:
  "deliver_events (xs @ ys) info = deliver_events ys (deliver_events xs info)"
  by (induction xs arbitrary: info) simp_all

lemma deliver_events_keep_mp3:
  "codec_fmt info = AUDIO_CODEC_MP3 \<Longrightarrow>
   codec_fmt (deliver_events evts info) = AUDIO_CODEC_MP3"
  by (induction evts arbitrary: info) (simp_all add: handle_codec)

text \<open>
  C1. The claim: the codec of a \<^verbatim>\<open>Content-Type\<close> or \<^verbatim>\<open>Content-Disposition\<close> header is
  found by case-insensitive containment of the markers, so \<^verbatim>\<open>audio/aac\<close> is AAC and a
  value with no marker is NONE. The code, at the header \<^verbatim>\<open>Content-Type: audio/aac\<close> and
  at \<^verbatim>\<open>Content-Type: text/html; charset=utf-8\<close>, stores MP3, where the classification
  of the specification gives AAC and NONE.
\<close>

theorem sniffer_stores_mp3_for_aac_and_html:
  "http_event_handle
     \<lparr>event_id = HTTP_EVENT_ON_HEADER, header_key = ''Content-Type'',
      header_value = ''audio/aac''\<rparr> info
     = (ESP_OK, info\<lparr>codec_fmt := AUDIO_CODEC_MP3\<rparr>)
   \<and> spec_audio_type ''audio/aac'' = AUDIO_CODEC_AAC
   \<and> http_event_handle
       \<lparr>event_id = HTTP_EVENT_ON_HEADER, header_key = ''Content-Type'',
        header_value = ''text/html; charset=utf-8''\<rparr> info
       = (ESP_OK, info\<lparr>codec_fmt := AUDIO_CODEC_MP3\<rparr>)
   \<and> spec_audio_type ''text/html; charset=utf-8'' = AUDIO_CODEC_NONE"
  by (simp add: http_event_handle_def get_audio_type_def spec_audio_type_def tolower_def)

text \<open>
  C3. Within the events of one header fetch, once a header has produced a classification
  other than NONE, the codec stays what that first header gave, however many of the later
  events have been processed.
\<close>

theorem first_classification_wins:
  assumes "classifies evt" and "\<forall>p \<in> set pre. \<not> classifies p"
  shows "codec_fmt (deliver_events (pre @ evt # take k post) info)
           = get_audio_type (header_value evt)"
  using assms(1)
  by (simp add: deliver_events_append deliver_events_keep_mp3 handle_codec get_audio_type_mp3)

theorem first_classification_wins_witness:
  "classifies \<lparr>event_id = HTTP_EVENT_ON_HEADER, header_key = ''content-type'',
               header_value = ''audio/aac''\<rparr>
   \<and> \<not> classifies \<lparr>event_id = HTTP_EVENT_ON_HEADER, header_key = ''Server'',
                    header_value = ''nginx''\<rparr>
   \<and> codec_fmt
       (deliver_events
          ([\<lparr>event_id = HTTP_EVENT_ON_HEADER, header_key = ''Server'',
             header_value = ''nginx''\<rparr>]
           @ \<lparr>event_id = HTTP_EVENT_ON_HEADER, header_key = ''content-type'',
               header_value = ''audio/aac''\<rparr>
           # take 1 [\<lparr>event_id = HTTP_EVENT_ON_HEADER, header_key = ''Content-Disposition'',
                      header_value = ''inline''\<rparr>])
          \<lparr>byte_pos = 0, total_bytes = 0, codec_fmt = AUDIO_CODEC_NONE\<rparr>)
       = get_audio_type ''audio/aac''"
proof -
  let ?evt = "\<lparr>event_id = HTTP_EVENT_ON_HEADER, header_key = ''content-type'',
               header_value = ''audio/aac''\<rparr>"
  let ?pre = "[\<lparr>event_id = HTTP_EVENT_ON_HEADER, header_key = ''Server'',
                header_value = ''nginx''\<rparr>]"
  have h1: "classifies ?evt"
    by (simp add: classifies_def get_audio_type_def tolower_def)
  have h2: "\<forall>p \<in> set ?pre. \<not> classifies p"
    by (simp add: classifies_def tolower_def)
  let ?post = "[\<lparr>event_id = HTTP_EVENT_ON_HEADER, header_key = ''Content-Disposition'',
                 header_value = ''inline''\<rparr>]"
  let ?info = "\<lparr>byte_pos = 0, total_bytes = 0, codec_fmt = AUDIO_CODEC_NONE\<rparr>"
  have "codec_fmt (deliver_events (?pre @ ?evt # take 1 ?post) ?info)
          = get_audio_type (header_value ?evt)"
    by (rule first_classification_wins [OF h1 h2])
  with h1 h2 show ?thesis
    by simp
qed

subsection \<open>Opening\<close>

lemma headers_fetched_append [simp]:
  "headers_fetched (xs @ ys) = (headers_fetched xs \<or> headers_fetched ys)"
  by (induction xs rule: headers_fetched.induct) simp_all

lemma headers_fetched_range [simp]:
  "headers_fetched (if c then [Esp_http_client_set_header h k v] else []) = False"
  by simp

lemma open_attempted_append [simp]:
  "open_attempted (xs @ ys) = (open_attempted xs \<or> open_attempted ys)"
  by (induction xs rule: open_attempted.induct) simp_all

lemma released_append [simp]:
  "released h (xs @ ys) = (released h xs \<or> released h ys)"
  by (induction xs) simp_all

text \<open>No path of \<^verbatim>\<open>_http_open\<close> releases a transport session.\<close>

lemma http_open_never_releases: "\<not> released h (snd (snd (http_open env self)))"
proof (cases "post_field env (init_result env)")
  case (Pair b n)
  then show ?thesis
    by (simp add: http_open_def Let_def split: option.splits)
qed

lemmas scenario_defs =
  scenario_env_def scenario_element_def hook_answer_def http_stream_init_def
  dispatch_hook_def ESP_OK_def ESP_FAIL_def Let_def

text \<open>
  C2. The claim: when the PreRequest hook, or the OnRequest hook of a reader, answers a
  negative value, \<^verbatim>\<open>open()\<close> fails, the element stays closed, and the transport handle
  this call created is released before it returns. The code, for a reader whose
  OnRequest hook answers \<open>-1\<close> and for a writer whose PreRequest hook answers \<open>-1\<close>:
  the call fails and the element stays closed, but the handle is still stored in the
  element and no \<^verbatim>\<open>esp_http_client_cleanup\<close> is among the calls made.
\<close>

theorem open_hook_abort_not_released:
  "(let r = http_open scenario_env
              (scenario_element AUDIO_STREAM_READER
                 (Some (hook_answer HTTP_STREAM_ON_REQUEST (- 1))))
    in fst r = ESP_FAIL
       \<and> \<not> is_open (el_data (fst (snd r)))
       \<and> client (el_data (fst (snd r))) = Some 1
       \<and> transport_calls (snd (snd r)) =
           [Esp_http_client_init ''http://host/a.mp3'',
            Esp_http_client_get_post_field (Some 1),
            Esp_http_client_open (Some 1) 0]
       \<and> \<not> released (Some 1) (snd (snd r)))
   \<and> (let r = http_open scenario_env
                (scenario_element AUDIO_STREAM_WRITER
                   (Some (hook_answer HTTP_STREAM_PRE_REQUEST (- 1))))
      in fst r = ESP_FAIL
         \<and> \<not> is_open (el_data (fst (snd r)))
         \<and> client (el_data (fst (snd r))) = Some 1
         \<and> transport_calls (snd (snd r)) = [Esp_http_client_init ''http://host/a.mp3'']
         \<and> \<not> released (Some 1) (snd (snd r)))"
  by (simp add: http_open_def scenario_defs)

text \<open>
  C5, as amended. On an element that passes the entry checks and gets a transport
  handle, the PreRequest hook aborts \<^verbatim>\<open>open()\<close> exactly when its answer is not zero:
  then the call fails, the element stays closed and the transport is never opened. When
  the answer is zero the call goes on to open the transport.
\<close>

theorem pre_request_abort_iff:
  assumes "el_uri self = Some u" and "\<not> is_open (el_data self)"
    and "init_result env \<noteq> None"
  shows "(dispatch_hook ((el_data self)\<lparr>client := init_result env\<rparr>)
            HTTP_STREAM_PRE_REQUEST None 0 \<noteq> 0 \<longrightarrow>
           fst (http_open env self) = ESP_FAIL
           \<and> \<not> is_open (el_data (fst (snd (http_open env self))))
           \<and> \<not> open_attempted (snd (snd (http_open env self))))
       \<and> (dispatch_hook ((el_data self)\<lparr>client := init_result env\<rparr>)
            HTTP_STREAM_PRE_REQUEST None 0 = 0 \<longrightarrow>
           open_attempted (snd (snd (http_open env self))))"
proof (intro conjI impI)
  let ?http = "(el_data self)\<lparr>client := init_result env\<rparr>"
  assume r: "dispatch_hook ?http HTTP_STREAM_PRE_REQUEST None 0 \<noteq> 0"
  have "http_open env self =
          (ESP_FAIL, self\<lparr>el_data := ?http\<rparr>,
           Esp_http_client_init u #
           (if byte_pos (el_info self) \<noteq> 0
            then [Esp_http_client_set_header (init_result env) ''Range''
                    (rang_header (byte_pos (el_info self)))]
            else []) @ [Esp_loge ''Failed to process user callback''])"
    using assms r by (simp add: http_open_def Let_def ESP_OK_def)
  then show "fst (http_open env self) = ESP_FAIL"
    and "\<not> is_open (el_data (fst (snd (http_open env self))))"
    and "\<not> open_attempted (snd (snd (http_open env self)))"
    using assms(2) by simp_all
next
  let ?http = "(el_data self)\<lparr>client := init_result env\<rparr>"
  assume r: "dispatch_hook ?http HTTP_STREAM_PRE_REQUEST None 0 = 0"
  obtain b n where pf: "post_field env (init_result env) = (b, n)"
    by (cases "post_field env (init_result env)")
  show "open_attempted (snd (snd (http_open env self)))"
    using assms r pf by (simp add: http_open_def Let_def ESP_OK_def)
qed

theorem pre_request_abort_iff_witness:
  "el_uri (scenario_element AUDIO_STREAM_READER (Some (hook_answer HTTP_STREAM_PRE_REQUEST 7)))
     = Some ''http://host/a.mp3''
   \<and> \<not> is_open (el_data (scenario_element AUDIO_STREAM_READER
                            (Some (hook_answer HTTP_STREAM_PRE_REQUEST 7))))
   \<and> init_result scenario_env \<noteq> None
   \<and> dispatch_hook
       ((el_data (scenario_element AUDIO_STREAM_READER
                    (Some (hook_answer HTTP_STREAM_PRE_REQUEST 7))))
          \<lparr>client := init_result scenario_env\<rparr>)
       HTTP_STREAM_PRE_REQUEST None 0 \<noteq> 0
   \<and> fst (http_open scenario_env
            (scenario_element AUDIO_STREAM_READER
               (Some (hook_answer HTTP_STREAM_PRE_REQUEST 7)))) = ESP_FAIL
   \<and> \<not> open_attempted
         (snd (snd (http_open scenario_env
                      (scenario_element AUDIO_STREAM_READER
                         (Some (hook_answer HTTP_STREAM_PRE_REQUEST 7))))))"
proof -
  let ?el = "scenario_element AUDIO_STREAM_READER (Some (hook_answer HTTP_STREAM_PRE_REQUEST 7))"
  have h1: "el_uri ?el = Some ''http://host/a.mp3''"
    by (simp add: scenario_defs)
  have h2: "\<not> is_open (el_data ?el)"
    by (simp add: scenario_defs)
  have h3: "init_result scenario_env \<noteq> None"
    by (simp add: scenario_defs)
  have h4: "dispatch_hook ((el_data ?el)\<lparr>client := init_result scenario_env\<rparr>)
              HTTP_STREAM_PRE_REQUEST None 0 \<noteq> 0"
    by (simp add: scenario_defs)
  from pre_request_abort_iff [OF h1 h2 h3] h1 h2 h3 h4 show ?thesis
    by blast
qed

text \<open>
  C5, as stated, fails: a PreRequest answer of 1 makes a writer's \<^verbatim>\<open>open()\<close> fail on a
  transport where the same call succeeds when the answer is 0.
\<close>

theorem pre_request_positive_counterexample:
  "fst (http_open scenario_env
          (scenario_element AUDIO_STREAM_WRITER
             (Some (hook_answer HTTP_STREAM_PRE_REQUEST 1)))) = ESP_FAIL
   \<and> fst (http_open scenario_env
            (scenario_element AUDIO_STREAM_WRITER
               (Some (hook_answer HTTP_STREAM_PRE_REQUEST 0)))) = ESP_OK"
  by (simp add: http_open_def scenario_defs)

text \<open>
  C6. If a reader's \<^verbatim>\<open>open()\<close> gets as far as fetching the response headers, then
  whatever status code the transport reports, the call returns \<^verbatim>\<open>ESP_OK\<close>, the element
  is open, and the stream information published to the framework is the one the header
  fetch produced.
\<close>

theorem status_code_never_fails_open:
  assumes hf: "headers_fetched (snd (snd (http_open env self)))"
  shows "fst (http_open (env\<lparr>status_code := sc\<rparr>) self) = ESP_OK
     \<and> is_open (el_data (fst (snd (http_open (env\<lparr>status_code := sc\<rparr>) self))))
     \<and> el_info (fst (snd (http_open (env\<lparr>status_code := sc\<rparr>) self))) =
         (deliver_events (fetch_events env (init_result env)) (el_info self))
           \<lparr>total_bytes := fetch_result env (init_result env)\<rparr>"
proof -
  let ?http = "(el_data self)\<lparr>client := init_result env\<rparr>"
  let ?h = "init_result env"
  obtain u where u: "el_uri self = Some u"
    using hf by (cases "el_uri self") (simp_all add: http_open_def Let_def)
  have nopen: "\<not> is_open (el_data self)"
  proof
    assume "is_open (el_data self)"
    from u this hf show False by (simp add: http_open_def Let_def)
  qed
  have "?h \<noteq> None"
  proof
    assume "?h = None"
    from u nopen this hf show False by (simp add: http_open_def Let_def)
  qed
  then obtain hv where h: "?h = Some hv"
    by blast
  have pre: "dispatch_hook ?http HTTP_STREAM_PRE_REQUEST None 0 = ESP_OK"
  proof (rule ccontr)
    assume "dispatch_hook ?http HTTP_STREAM_PRE_REQUEST None 0 \<noteq> ESP_OK"
    from u nopen h this hf show False by (simp add: http_open_def Let_def)
  qed
  have rd: "stream_type (el_data self) \<noteq> AUDIO_STREAM_WRITER"
  proof
    assume "stream_type (el_data self) = AUDIO_STREAM_WRITER"
    from u nopen h pre this hf show False
      by (cases "open_result env ?h (- 1) = ESP_OK") (simp_all add: http_open_def Let_def)
  qed
  obtain b n where pf: "post_field env ?h = (b, n)"
    by (cases "post_field env ?h")
  note path = u nopen h pre rd pf
  have op: "open_result env ?h n = ESP_OK"
  proof (rule ccontr)
    assume "open_result env ?h n \<noteq> ESP_OK"
    from path this hf show False by (simp add: http_open_def Let_def)
  qed
  have onreq: "\<not> dispatch_hook ?http HTTP_STREAM_ON_REQUEST b n < 0"
  proof
    assume "dispatch_hook ?http HTTP_STREAM_ON_REQUEST b n < 0"
    from path op this hf show False by (simp add: http_open_def Let_def)
  qed
  have wr: "\<not> ((n \<noteq> 0 \<and> b \<noteq> None \<and> dispatch_hook ?http HTTP_STREAM_ON_REQUEST b n = 0)
                \<and> write_result env ?h b n \<le> 0)"
  proof
    assume "(n \<noteq> 0 \<and> b \<noteq> None \<and> dispatch_hook ?http HTTP_STREAM_ON_REQUEST b n = 0)
                \<and> write_result env ?h b n \<le> 0"
    from path op this hf show False by (simp add: http_open_def Let_def)
  qed
  have post: "\<not> dispatch_hook ?http HTTP_STREAM_POST_REQUEST None 0 < 0"
  proof
    assume "dispatch_hook ?http HTTP_STREAM_POST_REQUEST None 0 < 0"
    from path op onreq wr this hf show False
      by (simp add: http_open_def Let_def split: if_splits)
  qed
  from path op onreq wr post show ?thesis
    by (auto simp add: http_open_def Let_def)
qed

theorem status_code_never_fails_open_witness:
  "headers_fetched
     (snd (snd (http_open scenario_env (scenario_element AUDIO_STREAM_READER None))))
   \<and> fst (http_open (scenario_env\<lparr>status_code := (\<lambda>h. 404)\<rparr>)
            (scenario_element AUDIO_STREAM_READER None)) = ESP_OK
   \<and> is_open (el_data (fst (snd (http_open (scenario_env\<lparr>status_code := (\<lambda>h. 404)\<rparr>)
                                    (scenario_element AUDIO_STREAM_READER None)))))
   \<and> el_info (fst (snd (http_open (scenario_env\<lparr>status_code := (\<lambda>h. 404)\<rparr>)
                          (scenario_element AUDIO_STREAM_READER None))))
       = \<lparr>byte_pos = 0, total_bytes = 4096, codec_fmt = AUDIO_CODEC_MP3\<rparr>"
proof -
  let ?el = "scenario_element AUDIO_STREAM_READER None"
  have h: "headers_fetched (snd (snd (http_open scenario_env ?el)))"
    by (simp add: http_open_def scenario_defs)
  have e: "(deliver_events (fetch_events scenario_env (init_result scenario_env)) (el_info ?el))
             \<lparr>total_bytes := fetch_result scenario_env (init_result scenario_env)\<rparr>
           = \<lparr>byte_pos = 0, total_bytes = 4096, codec_fmt = AUDIO_CODEC_MP3\<rparr>"
    by (simp add: scenario_defs http_event_handle_def get_audio_type_def tolower_def)
  from status_code_never_fails_open [OF h, of "\<lambda>h. 404"] h e show ?thesis
    by simp
qed

text \<open>
  C7. \<^verbatim>\<open>open()\<close> on an element whose URI is unset, or which is already open, returns
  \<^verbatim>\<open>ESP_FAIL\<close>, leaves the whole element as it was (offset, size, codec, open flag and
  stored handle included) and makes no call to the transport or the framework.
\<close>

theorem open_rejected_no_mutation:
  "el_uri self = None \<or> is_open (el_data self) \<Longrightarrow>
   fst (http_open env self) = ESP_FAIL
   \<and> fst (snd (http_open env self)) = self
   \<and> transport_calls (snd (snd (http_open env self))) = []"
  by (auto simp: http_open_def Let_def split: option.splits)

theorem open_rejected_no_mutation_witness:
  "(el_uri (fst (snd (http_open scenario_env (scenario_element AUDIO_STREAM_READER None))))
      = None
    \<or> is_open (el_data (fst (snd (http_open scenario_env
                                     (scenario_element AUDIO_STREAM_READER None))))))
   \<and> fst (http_open scenario_env
            (fst (snd (http_open scenario_env (scenario_element AUDIO_STREAM_READER None)))))
       = ESP_FAIL
   \<and> fst (snd (http_open scenario_env
                 (fst (snd (http_open scenario_env
                              (scenario_element AUDIO_STREAM_READER None))))))
       = fst (snd (http_open scenario_env (scenario_element AUDIO_STREAM_READER None)))"
proof -
  let ?el = "fst (snd (http_open scenario_env (scenario_element AUDIO_STREAM_READER None)))"
  have h: "el_uri ?el = None \<or> is_open (el_data ?el)"
    by (simp add: http_open_def scenario_defs)
  from open_rejected_no_mutation [OF h, of scenario_env] h show ?thesis
    by blast
qed

subsection \<open>Reading\<close>

text \<open>
  C8. Whatever the hook and the transport answer, when \<^verbatim>\<open>read()\<close> returns a positive
  \<open>K\<close> the element afterwards is the element before with the offset advanced by exactly
  \<open>K\<close> in its published stream information, and when it returns zero or a negative
  value the element is unchanged.
\<close>

theorem read_advances_byte_pos:
  "(0 < fst (http_read env self buf len) \<longrightarrow>
      fst (snd (http_read env self buf len)) =
        self\<lparr>el_info := (el_info self)
               \<lparr>byte_pos := byte_pos (el_info self) + fst (http_read env self buf len)\<rparr>\<rparr>)
   \<and> (fst (http_read env self buf len) \<le> 0 \<longrightarrow>
        fst (snd (http_read env self buf len)) = self)"
  by (simp add: http_read_def Let_def)

theorem read_advances_byte_pos_witness:
  "0 < fst (http_read scenario_env (scenario_element AUDIO_STREAM_READER None) None 256)
   \<and> byte_pos (el_info (fst (snd (http_read scenario_env
                                     (scenario_element AUDIO_STREAM_READER None) None 256))))
       = 256
   \<and> fst (http_read scenario_env
            (scenario_element AUDIO_STREAM_READER
               (Some (hook_answer HTTP_STREAM_ON_RESPONSE (- 1)))) None 256) \<le> 0
   \<and> fst (snd (http_read scenario_env
                 (scenario_element AUDIO_STREAM_READER
                    (Some (hook_answer HTTP_STREAM_ON_RESPONSE (- 1)))) None 256))
       = scenario_element AUDIO_STREAM_READER
           (Some (hook_answer HTTP_STREAM_ON_RESPONSE (- 1)))"
proof -
  let ?a = "scenario_element AUDIO_STREAM_READER None"
  let ?b = "scenario_element AUDIO_STREAM_READER
              (Some (hook_answer HTTP_STREAM_ON_RESPONSE (- 1)))"
  have ka: "fst (http_read scenario_env ?a None 256) = 256"
    by (simp add: http_read_def scenario_defs)
  have kb: "fst (http_read scenario_env ?b None 256) = - 1"
    by (simp add: http_read_def scenario_defs)
  have pa: "byte_pos (el_info ?a) = 0"
    by (simp add: scenario_defs)
  from read_advances_byte_pos [of scenario_env ?a None 256]
       read_advances_byte_pos [of scenario_env ?b None 256] ka kb pa
  show ?thesis
    by simp
qed

subsection \<open>Closing\<close>

lemma close_loop_fst: "fst (close_loop http) = http\<lparr>is_open := False\<rparr>"
  apply (subst close_loop.simps)
  apply (subst close_loop.simps)
  apply (simp split: prod.splits)
  done

lemma http_close_element:
  "fst (snd (http_close self)) =
     (if el_state self \<noteq> AEL_STATE_PAUSED
      then self\<lparr>el_data := (el_data self)\<lparr>is_open := False\<rparr>,
                el_info := (el_info self)\<lparr>byte_pos := 0\<rparr>\<rparr>
      else self\<lparr>el_data := (el_data self)\<lparr>is_open := False\<rparr>\<rparr>)"
  using close_loop_fst [of "el_data self"]
  by (cases "close_loop (el_data self)") (simp add: http_close_def Let_def)

text \<open>
  On an element that is not open the loop does nothing, and \<^verbatim>\<open>_http_close\<close> still
  closes and releases whatever handle the element stores.
\<close>

lemma http_close_not_open_calls:
  "\<not> is_open (el_data self) \<Longrightarrow>
   snd (snd (http_close self)) =
     [Esp_http_client_close (client (el_data self)),
      Esp_http_client_cleanup (client (el_data self))]"
  by (simp add: http_close_def Let_def close_loop.simps)

lemma http_close_ret: "fst (http_close self) = ESP_OK"
  by (cases "close_loop (el_data self)") (simp add: http_close_def Let_def)

text \<open>
  C4, as amended. \<^verbatim>\<open>close()\<close> on an element that is not open leaves the element's
  private data (open flag and stored handle included), the total size and the codec
  unchanged; the offset is unchanged when the element is paused and is 0 otherwise. A
  second \<^verbatim>\<open>close()\<close> right after a first one changes nothing in the element.
\<close>

theorem close_not_open_frame:
  "(\<not> is_open (el_data self) \<longrightarrow>
      el_data (fst (snd (http_close self))) = el_data self
      \<and> total_bytes (el_info (fst (snd (http_close self)))) = total_bytes (el_info self)
      \<and> codec_fmt (el_info (fst (snd (http_close self)))) = codec_fmt (el_info self)
      \<and> byte_pos (el_info (fst (snd (http_close self)))) =
          (if el_state self = AEL_STATE_PAUSED then byte_pos (el_info self) else 0))
   \<and> fst (snd (http_close (fst (snd (http_close self))))) = fst (snd (http_close self))"
  by (simp add: http_close_element)

theorem close_not_open_frame_witness:
  "\<not> is_open (el_data ((scenario_element AUDIO_STREAM_READER None)
                          \<lparr>el_state := AEL_STATE_PAUSED,
                           el_info := \<lparr>byte_pos = 5, total_bytes = 9,
                                       codec_fmt = AUDIO_CODEC_MP3\<rparr>\<rparr>))
   \<and> el_info (fst (snd (http_close ((scenario_element AUDIO_STREAM_READER None)
                          \<lparr>el_state := AEL_STATE_PAUSED,
                           el_info := \<lparr>byte_pos = 5, total_bytes = 9,
                                       codec_fmt = AUDIO_CODEC_MP3\<rparr>\<rparr>))))
       = \<lparr>byte_pos = 5, total_bytes = 9, codec_fmt = AUDIO_CODEC_MP3\<rparr>"
proof -
  let ?el = "(scenario_element AUDIO_STREAM_READER None)
               \<lparr>el_state := AEL_STATE_PAUSED,
                el_info := \<lparr>byte_pos = 5, total_bytes = 9, codec_fmt = AUDIO_CODEC_MP3\<rparr>\<rparr>"
  have h: "\<not> is_open (el_data ?el)"
    by (simp add: scenario_defs)
  have "el_info (fst (snd (http_close ?el))) =
          \<lparr>byte_pos = byte_pos (el_info (fst (snd (http_close ?el)))),
           total_bytes = total_bytes (el_info (fst (snd (http_close ?el)))),
           codec_fmt = codec_fmt (el_info (fst (snd (http_close ?el))))\<rparr>"
    by simp
  with close_not_open_frame [of ?el] h show ?thesis
    by simp
qed

text \<open>
  C4, as stated, fails: on an element that is not open, not paused and whose offset is
  5, \<^verbatim>\<open>close()\<close> sets the offset to 0.
\<close>

theorem close_not_open_counterexample:
  "\<not> is_open (el_data ((scenario_element AUDIO_STREAM_READER None)
                          \<lparr>el_info := \<lparr>byte_pos = 5, total_bytes = 9,
                                       codec_fmt = AUDIO_CODEC_MP3\<rparr>\<rparr>))
   \<and> byte_pos (el_info (fst (snd (http_close ((scenario_element AUDIO_STREAM_READER None)
                          \<lparr>el_info := \<lparr>byte_pos = 5, total_bytes = 9,
                                       codec_fmt = AUDIO_CODEC_MP3\<rparr>\<rparr>))))) = 0
   \<and> byte_pos (el_info ((scenario_element AUDIO_STREAM_READER None)
                          \<lparr>el_info := \<lparr>byte_pos = 5, total_bytes = 9,
                                       codec_fmt = AUDIO_CODEC_MP3\<rparr>\<rparr>)) = 5"
  by (simp add: http_close_element scenario_defs)

text \<open>
  C9. \<^verbatim>\<open>close()\<close> on an open element sets the offset to 0 when the element is not
  paused and keeps the offset when it is paused.
\<close>

theorem close_byte_pos:
  "is_open (el_data self) \<Longrightarrow>
   byte_pos (el_info (fst (snd (http_close self)))) =
     (if el_state self = AEL_STATE_PAUSED then byte_pos (el_info self) else 0)"
  by (simp add: http_close_element)

theorem close_byte_pos_witness:
  "is_open (el_data ((scenario_element AUDIO_STREAM_READER None)
      \<lparr>el_state := AEL_STATE_PAUSED,
       el_info := \<lparr>byte_pos = 700, total_bytes = 4096, codec_fmt = AUDIO_CODEC_MP3\<rparr>,
       el_data := (el_data (scenario_element AUDIO_STREAM_READER None))
                    \<lparr>client := Some 1, is_open := True\<rparr>\<rparr>))
   \<and> byte_pos (el_info (fst (snd (http_close ((scenario_element AUDIO_STREAM_READER None)
      \<lparr>el_state := AEL_STATE_PAUSED,
       el_info := \<lparr>byte_pos = 700, total_bytes = 4096, codec_fmt = AUDIO_CODEC_MP3\<rparr>,
       el_data := (el_data (scenario_element AUDIO_STREAM_READER None))
                    \<lparr>client := Some 1, is_open := True\<rparr>\<rparr>))))) = 700"
proof -
  let ?el = "(scenario_element AUDIO_STREAM_READER None)
      \<lparr>el_state := AEL_STATE_PAUSED,
       el_info := \<lparr>byte_pos = 700, total_bytes = 4096, codec_fmt = AUDIO_CODEC_MP3\<rparr>,
       el_data := (el_data (scenario_element AUDIO_STREAM_READER None))
                    \<lparr>client := Some 1, is_open := True\<rparr>\<rparr>"
  have h: "is_open (el_data ?el)"
    by simp
  from close_byte_pos [OF h] h show ?thesis
    by simp
qed

text \<open>
  C10. For every element, role and hook, \<^verbatim>\<open>close()\<close> returns \<^verbatim>\<open>ESP_OK\<close> and leaves the
  element not open.
\<close>

theorem close_always_ok:
  "fst (http_close self) = ESP_OK
   \<and> \<not> is_open (el_data (fst (snd (http_close self))))"
  by (simp add: http_close_ret http_close_element)

end
